theory Spec2Isabelle
  imports Complex_Main
begin

section \<open>Values of the language\<close>

subsection \<open>Numbers\<close>

text \<open>
  A \<^verbatim>\<open>number\<close> is modelled as an exact real (\<open>Fin\<close>) or \<^verbatim>\<open>NaN\<close>.  Rounding of
  IEEE doubles is not modelled: arithmetic on finite values is exact.  The operators
  propagate \<^verbatim>\<open>NaN\<close>, and every comparison with \<^verbatim>\<open>NaN\<close> is false, as in the language.
  Infinities are left out: every divisor in the program is a non-zero literal or the
  vote total, which is positive wherever a wedge is computed (\<open>entries_total_pos\<close>
  below); the model sends a zero divisor to \<^verbatim>\<open>NaN\<close>.
\<close>

datatype number = Fin real | NaN

instantiation number :: "{plus, minus, times, inverse, ord}"
begin

definition plus_number :: "number \<Rightarrow> number \<Rightarrow> number" where
  "plus_number a b = (case a of NaN \<Rightarrow> NaN | Fin x \<Rightarrow> (case b of NaN \<Rightarrow> NaN | Fin y \<Rightarrow> Fin (x + y)))"

definition minus_number :: "number \<Rightarrow> number \<Rightarrow> number" where
  "minus_number a b = (case a of NaN \<Rightarrow> NaN | Fin x \<Rightarrow> (case b of NaN \<Rightarrow> NaN | Fin y \<Rightarrow> Fin (x - y)))"

definition times_number :: "number \<Rightarrow> number \<Rightarrow> number" where
  "times_number a b = (case a of NaN \<Rightarrow> NaN | Fin x \<Rightarrow> (case b of NaN \<Rightarrow> NaN | Fin y \<Rightarrow> Fin (x * y)))"

definition divide_number :: "number \<Rightarrow> number \<Rightarrow> number" where
  "divide_number a b = (case a of NaN \<Rightarrow> NaN
     | Fin x \<Rightarrow> (case b of NaN \<Rightarrow> NaN | Fin y \<Rightarrow> if y = 0 then NaN else Fin (x / y)))"

definition inverse_number :: "number \<Rightarrow> number" where
  "inverse_number a = (case a of NaN \<Rightarrow> NaN | Fin y \<Rightarrow> if y = 0 then NaN else Fin (1 / y))"

definition less_eq_number :: "number \<Rightarrow> number \<Rightarrow> bool" where
  "less_eq_number a b = (case a of NaN \<Rightarrow> False | Fin x \<Rightarrow> (case b of NaN \<Rightarrow> False | Fin y \<Rightarrow> x \<le> y))"

definition less_number :: "number \<Rightarrow> number \<Rightarrow> bool" where
  "less_number a b = (case a of NaN \<Rightarrow> False | Fin x \<Rightarrow> (case b of NaN \<Rightarrow> False | Fin y \<Rightarrow> x < y))"

instance ..

end

fun Math_cos :: "number \<Rightarrow> number" where
  "Math_cos (Fin x) = Fin (cos x)"
| "Math_cos NaN = NaN"

fun Math_sin :: "number \<Rightarrow> number" where
  "Math_sin (Fin x) = Fin (sin x)"
| "Math_sin NaN = NaN"

definition Math_PI :: number where
  "Math_PI = Fin pi"

subsection \<open>Estimates: \<^verbatim>\<open>number | string\<close>\<close>

text \<open>
  An estimate is a number or a string.  The numbers the program handles as estimates are
  the story points, so the numeric case carries an integer; strings are byte strings
  (a character outside ASCII is its UTF-8 bytes).
\<close>

datatype estimate = EstNumber int | EstString string

text \<open>Truthiness of \<^verbatim>\<open>user.estimate\<close>: \<^verbatim>\<open>undefined\<close>, \<^verbatim>\<open>0\<close> and \<^verbatim>\<open>''\<close> are falsy.\<close>

fun truthy :: "estimate option \<Rightarrow> bool" where
  "truthy None = False"
| "truthy (Some (EstNumber n)) = (n \<noteq> 0)"
| "truthy (Some (EstString s)) = (s \<noteq> [])"

definition digitChar :: "nat \<Rightarrow> char" where
  "digitChar d = ''0123456789'' ! d"

function showNat :: "nat \<Rightarrow> string" where
  "showNat n = (if n < 10 then [digitChar n] else showNat (n div 10) @ [digitChar (n mod 10)])"
  by pat_completeness auto
termination
  by (relation "measure (\<lambda>n. n)") auto

declare showNat.simps [simp del]

text \<open>
  \<^verbatim>\<open>estimate.toString()\<close>: decimal digits for a number (the form the language prints
  for integers below \<open>10^21\<close> in magnitude), the string itself otherwise.
\<close>

fun toString :: "estimate \<Rightarrow> string" where
  "toString (EstNumber n) = (if n < 0 then CHR ''-'' # showNat (nat (- n)) else showNat (nat n))"
| "toString (EstString s) = s"

subsection \<open>Plain objects used as dictionaries\<close>

text \<open>
  \<^verbatim>\<open>estimateCounts\<close> is created by the literal \<^verbatim>\<open>{}\<close>, so it is an ordinary object whose
  prototype is \<^verbatim>\<open>Object.prototype\<close>.  Its own properties are kept in creation order as an
  association list.  A stored value is a count, or a string that is not a numeral
  (which is what \<^verbatim>\<open>f + 1\<close> gives for a function \<^verbatim>\<open>f\<close>).
\<close>

datatype countval = Count nat | NotNumeric

type_synonym counts = "(string \<times> countval) list"

text \<open>The function-valued properties every ordinary object inherits.\<close>

definition inheritedMethods :: "string list" where
  "inheritedMethods =
     [''constructor'', ''hasOwnProperty'', ''isPrototypeOf'', ''propertyIsEnumerable'',
      ''toLocaleString'', ''toString'', ''valueOf'',
      ''__defineGetter__'', ''__defineSetter__'', ''__lookupGetter__'', ''__lookupSetter__'']"

text \<open>\<^verbatim>\<open>__proto__\<close> is an inherited accessor: reading it gives the prototype object, and
  its setter ignores a value that is neither an object nor \<^verbatim>\<open>null\<close>.\<close>

definition protoKey :: string where
  "protoKey = ''__proto__''"

definition inheritedNames :: "string list" where
  "inheritedNames = protoKey # inheritedMethods"

text \<open>
  One step of the counting loop,
  \<^verbatim>\<open>estimateCounts[estimate] = (estimateCounts[estimate] || 0) + 1\<close>:
  \<^item> an own count \<open>c\<close> becomes \<open>c + 1\<close> in place;
  \<^item> an own non-numeric string is truthy, and \<^verbatim>\<open>+ 1\<close> appends to it;
  \<^item> with no own property, the read falls through to the prototype: for \<^verbatim>\<open>__proto__\<close>
    the sum is a string and the assignment runs the inherited setter, which stores
    nothing; for an inherited method the sum is a string, stored as a new own property;
    for any other key the read is \<^verbatim>\<open>undefined\<close> and the new own property is \<open>1\<close>.
\<close>

definition bump :: "counts \<Rightarrow> string \<Rightarrow> counts" where
  "bump cs k =
     (case map_of cs k of
        Some (Count c) \<Rightarrow> map (\<lambda>(k', v). if k' = k then (k', Count (c + 1)) else (k', v)) cs
      | Some NotNumeric \<Rightarrow> cs
      | None \<Rightarrow>
          if k = protoKey then cs
          else if k \<in> set inheritedMethods then cs @ [(k, NotNumeric)]
          else cs @ [(k, Count 1)])"

text \<open>
  \<^verbatim>\<open>Object.entries\<close> lists the own properties in property order: the keys that are array
  indices (canonical decimal numerals below \<open>2^32 - 1\<close>) in ascending numeric order, then
  the other string keys in creation order.
\<close>

definition isDigit :: "char \<Rightarrow> bool" where
  "isDigit c = (c \<in> set ''0123456789'')"

definition digitVal :: "char \<Rightarrow> nat" where
  "digitVal c = length (takeWhile (\<lambda>d. d \<noteq> c) ''0123456789'')"

definition parseNat :: "string \<Rightarrow> nat" where
  "parseNat s = foldl (\<lambda>a c. 10 * a + digitVal c) 0 s"

definition isArrayIndex :: "string \<Rightarrow> bool" where
  "isArrayIndex s =
     (s \<noteq> [] \<and> list_all isDigit s \<and> (length s = 1 \<or> hd s \<noteq> CHR ''0'') \<and> parseNat s < 4294967295)"

definition Object_entries :: "(string \<times> 'v) list \<Rightarrow> (string \<times> 'v) list" where
  "Object_entries ps =
     sort_key (\<lambda>p. parseNat (fst p)) (filter (\<lambda>p. isArrayIndex (fst p)) ps)
     @ filter (\<lambda>p. \<not> isArrayIndex (fst p)) ps"

text \<open>\<^verbatim>\<open>Number(count)\<close> as the division sees it.\<close>

fun toNumber :: "countval \<Rightarrow> number" where
  "toNumber (Count c) = Fin (real c)"
| "toNumber NotNumeric = NaN"

section \<open>Data model\<close>

text \<open>
  \<^verbatim>\<open>interface User\<close>.  The optional fields \<^verbatim>\<open>estimate\<close>, \<^verbatim>\<open>isAdmin\<close> and \<^verbatim>\<open>connected\<close>
  are \<open>None\<close> when absent (\<^verbatim>\<open>undefined\<close>).
\<close>

record user =
  user_id :: string
  user_name :: string
  estimate :: "estimate option"
  hasVoted :: bool
  isAdmin :: "bool option"
  connected :: "bool option"

record story =
  title :: string
  description :: string

record room =
  room_id :: string
  room_name :: string
  userCount :: int
  adminName :: string
  story :: story
  votingRevealed :: bool
  room_estimationStarted :: bool
  createdAt :: string
  lastActivity :: string

record votingResults =
  vr_totalVotes :: int
  vr_estimates :: counts
  averageEstimate :: "int option"
  mostCommonEstimate :: "string option"
  vr_revealed :: "bool option"

text \<open>
  A string built by a template literal is kept as its pieces, the literal text and the
  interpolated numbers, in order: how a number prints is not modelled.
\<close>

datatype piece = Txt string | Val number

type_synonym template = "piece list"

record chartSegment =
  label :: string
  seg_value :: countval
  percentage :: number
  color :: string
  offset :: number
  pathData :: "template option"

text \<open>
  The fields of \<^verbatim>\<open>RoomComponent\<close>.  The three chart dimensions are initialised to numerals
  and never assigned again, so they are finite.
\<close>

record component =
  roomId :: string
  currentUser :: "user option"
  users :: "user list"
  selectedEstimate :: "estimate option"
  showNameDialog :: bool
  userName :: string
  comp_isAdmin :: bool
  storySummary :: string
  isEditingStory :: bool
  roomClosed :: bool
  room :: "room option"
  estimationStarted :: bool
  resultsRevealed :: bool
  chartSegments :: "chartSegment list"
  chartRadius :: real
  chartCenterX :: real
  chartCenterY :: real
  urlCopied :: bool

text \<open>What a method does to the outside: socket emissions, requests, storage, dialogs.\<close>

datatype effect =
    EmitSubmitVote string string string
  | HttpLeaveRoom string string
  | LocalStorageRemove string
  | RouterNavigate "string list"
  | SwalConfirmClose
  | SwalWarning
  | ShowConfetti
  | DetectChangesLater
  | ConsoleError string

section \<open>Result aggregator\<close>

definition colors :: "string list" where
  "colors = [''#4CAF50'', ''#2196F3'', ''#FF9800'', ''#9C27B0'', ''#F44336'',
             ''#00BCD4'', ''#795548'', ''#607D8B'', ''#FFEB3B'', ''#E91E63'']"

text \<open>The two decorated labels start with the UTF-8 bytes of their pictographs.\<close>

definition label_info :: string where
  "label_info = [CHR 0xE2, CHR 0x9D, CHR 0x93] @ '' Need more info''"

definition label_split :: string where
  "label_split = [CHR 0xE2, CHR 0x9C, CHR 0x82, CHR 0xEF, CHR 0xB8, CHR 0x8F] @ '' Story too big''"

definition getEstimateLabel :: "string \<Rightarrow> string" where
  "getEstimateLabel est =
     (if est = ''info'' then label_info
      else if est = ''split'' then label_split
      else est)"

text \<open>\<^verbatim>\<open>!user.isAdmin && user.hasVoted && user.estimate\<close>\<close>

definition counted :: "user \<Rightarrow> bool" where
  "counted u = (isAdmin u \<noteq> Some True \<and> hasVoted u \<and> truthy (estimate u))"

definition votingUsers :: "user list \<Rightarrow> user list" where
  "votingUsers us = filter counted us"

text \<open>The label a counted user contributes; the filter has made the estimate present.\<close>

definition estimateKey :: "user \<Rightarrow> string" where
  "estimateKey u = (case estimate u of Some e \<Rightarrow> toString e | None \<Rightarrow> [])"

definition countVotes :: "user list \<Rightarrow> counts" where
  "countVotes vs = foldl bump [] (map estimateKey vs)"

text \<open>
  The callback of \<^verbatim>\<open>Object.entries(estimateCounts).map\<close>, run over the entries in order.
  \<^verbatim>\<open>cumulativePercentage\<close> and \<^verbatim>\<open>colorIndex\<close> are the variables the callback closes over;
  \<open>est\<close>, \<open>cnt\<close>, \<open>pct\<close> and \<open>path\<close> stand for the source's \<^verbatim>\<open>estimate\<close>, \<^verbatim>\<open>count\<close>,
  \<^verbatim>\<open>percentage\<close> and \<^verbatim>\<open>pathData\<close>, which name record fields here.
\<close>

fun mapEntries :: "component \<Rightarrow> nat \<Rightarrow> number \<Rightarrow> nat \<Rightarrow> (string \<times> countval) list
    \<Rightarrow> chartSegment list" where
  "mapEntries c totalVotes cumulativePercentage colorIndex [] = []"
| "mapEntries c totalVotes cumulativePercentage colorIndex ((est, cnt) # rest) =
     (let pct = (toNumber cnt / Fin (real totalVotes)) * Fin 100;
          centerX = Fin (chartCenterX c);
          centerY = Fin (chartCenterY c);
          radius = Fin (chartRadius c);
          path =
            (if pct \<ge> Fin 99.9 then
               [Txt ''M '', Val centerX, Txt '' '', Val (centerY - radius),
                Txt '' A '', Val radius, Txt '' '', Val radius, Txt '' 0 1 1 '',
                Val (centerX - Fin 0.1), Txt '' '', Val (centerY - radius), Txt '' Z'']
             else
               (let startAngle = (cumulativePercentage / Fin 100) * Fin 2 * Math_PI - Math_PI / Fin 2;
                    endAngle = ((cumulativePercentage + pct) / Fin 100) * Fin 2 * Math_PI
                                 - Math_PI / Fin 2;
                    x1 = centerX + radius * Math_cos startAngle;
                    y1 = centerY + radius * Math_sin startAngle;
                    x2 = centerX + radius * Math_cos endAngle;
                    y2 = centerY + radius * Math_sin endAngle;
                    largeArc = (if pct > Fin 50 then Fin 1 else Fin 0)
                in [Txt ''M '', Val centerX, Txt '' '', Val centerY,
                    Txt '' L '', Val x1, Txt '' '', Val y1,
                    Txt '' A '', Val radius, Txt '' '', Val radius, Txt '' 0 '', Val largeArc,
                    Txt '' 1 '', Val x2, Txt '' '', Val y2, Txt '' Z'']));
          segment = \<lparr> label = getEstimateLabel est,
                      seg_value = cnt,
                      percentage = pct,
                      color = colors ! (colorIndex mod length colors),
                      offset = cumulativePercentage,
                      pathData = Some path \<rparr>
      in segment # mapEntries c totalVotes (cumulativePercentage + pct) (colorIndex + 1) rest)"

definition generateChartData :: "component \<Rightarrow> component \<times> effect list" where
  "generateChartData c =
     (let vs = votingUsers (users c);
          estimateCounts = countVotes vs;
          totalVotes = length vs
      in (c\<lparr>chartSegments := mapEntries c totalVotes (Fin 0) 0 (Object_entries estimateCounts)\<rparr>,
          [DetectChangesLater]))"

definition updateChartData :: "component \<Rightarrow> component \<times> effect list" where
  "updateChartData c =
     (if resultsRevealed c then generateChartData c
      else (c\<lparr>chartSegments := []\<rparr>, []))"

definition getSegmentPath :: "component \<Rightarrow> chartSegment \<Rightarrow> template" where
  "getSegmentPath c segment =
     (let centerX = Fin (chartCenterX c);
          centerY = Fin (chartCenterY c);
          radius = Fin (chartRadius c);
          startAngle = (offset segment / Fin 100) * Fin 2 * Math_PI - Math_PI / Fin 2;
          endAngle = ((offset segment + percentage segment) / Fin 100) * Fin 2 * Math_PI
                       - Math_PI / Fin 2;
          x1 = centerX + radius * Math_cos startAngle;
          y1 = centerY + radius * Math_sin startAngle;
          x2 = centerX + radius * Math_cos endAngle;
          y2 = centerY + radius * Math_sin endAngle;
          largeArc = (if percentage segment > Fin 50 then Fin 1 else Fin 0)
      in [Txt ''M '', Val centerX, Txt '' '', Val centerY,
          Txt '' L '', Val x1, Txt '' '', Val y1,
          Txt '' A '', Val radius, Txt '' '', Val radius, Txt '' 0 '', Val largeArc,
          Txt '' 1 '', Val x2, Txt '' '', Val y2, Txt '' Z''])"

section \<open>Room session controller\<close>

subsection \<open>Methods of the component\<close>

definition initialComponent :: "string \<Rightarrow> component" where
  "initialComponent rid =
     \<lparr> roomId = rid, currentUser = None, users = [], selectedEstimate = None,
       showNameDialog = False, userName = [], comp_isAdmin = False, storySummary = [],
       isEditingStory = False, roomClosed = False, room = None, estimationStarted = False,
       resultsRevealed = False, chartSegments = [], chartRadius = 160,
       chartCenterX = 175, chartCenterY = 175, urlCopied = False \<rparr>"

text \<open>
  \<^verbatim>\<open>selectEstimate(point)\<close>.  \<^verbatim>\<open>this.currentUser\<close> is an object of the component alone (it is
  parsed from storage or built on joining), so assigning its fields touches nothing else.
\<close>

definition selectEstimate :: "estimate \<Rightarrow> component \<Rightarrow> component \<times> effect list" where
  "selectEstimate point c =
     (if \<not> estimationStarted c then (c, [])
      else (case currentUser c of
              None \<Rightarrow> (c, [])
            | Some u \<Rightarrow>
                if selectedEstimate c = Some point then
                  (c\<lparr>selectedEstimate := None,
                     currentUser := Some (u\<lparr>estimate := None, hasVoted := False\<rparr>)\<rparr>,
                   [EmitSubmitVote (roomId c) (user_id u) []])
                else
                  (c\<lparr>selectedEstimate := Some point,
                     currentUser := Some (u\<lparr>estimate := Some point, hasVoted := True\<rparr>)\<rparr>,
                   [EmitSubmitVote (roomId c) (user_id u) (toString point)])))"

text \<open>
  \<^verbatim>\<open>closeRoom()\<close>.  The answer to the confirmation dialog and the way the leave-room request
  ends are inputs: the \<^verbatim>\<open>next\<close> callback runs on a response, the \<^verbatim>\<open>error\<close> callback
  on a failure.  The method assigns no field; its result is what it does to the outside.
\<close>

datatype http_outcome = ResponseNext | ResponseError

definition storageKey :: "string \<Rightarrow> string" where
  "storageKey rid = ''room_'' @ rid @ ''_user''"

definition closeRoom :: "bool \<Rightarrow> http_outcome \<Rightarrow> component \<Rightarrow> effect list" where
  "closeRoom isConfirmed outcome c =
     SwalConfirmClose #
     (if isConfirmed then
        (case currentUser c of
           None \<Rightarrow> []
         | Some u \<Rightarrow>
             HttpLeaveRoom (roomId c) (user_id u) #
             (case outcome of
                ResponseNext \<Rightarrow> [LocalStorageRemove (storageKey (roomId c)), RouterNavigate [''/'']]
              | ResponseError \<Rightarrow>
                  [LocalStorageRemove (storageKey (roomId c)), RouterNavigate [''/''], SwalWarning]))
      else [])"

subsection \<open>Subscriptions of the component\<close>

text \<open>The callbacks \<^verbatim>\<open>setupSubscriptions\<close> registers, one per observable of the service.\<close>

definition on_users :: "user list \<Rightarrow> component \<Rightarrow> component \<times> effect list" where
  "on_users us c = updateChartData (c\<lparr>users := us\<rparr>)"

text \<open>\<^verbatim>\<open>room.story.title || room.story.description || ''\<close>\<close>

definition storyText :: "story \<Rightarrow> string" where
  "storyText st = (if title st \<noteq> [] then title st else description st)"

definition on_room :: "room option \<Rightarrow> component \<Rightarrow> component \<times> effect list" where
  "on_room r c =
     (case r of
        None \<Rightarrow> (c\<lparr>room := None\<rparr>, [])
      | Some rm \<Rightarrow> (c\<lparr>room := Some rm, storySummary := storyText (story rm)\<rparr>, []))"

definition on_votingResults :: "votingResults option \<Rightarrow> component \<Rightarrow> component \<times> effect list" where
  "on_votingResults results c =
     (case results of None \<Rightarrow> (c, []) | Some _ \<Rightarrow> updateChartData c)"

definition on_estimationStarted :: "bool \<Rightarrow> component \<Rightarrow> component \<times> effect list" where
  "on_estimationStarted started c = (c\<lparr>estimationStarted := started\<rparr>, [])"

definition on_resultsRevealed :: "bool \<Rightarrow> component \<Rightarrow> component \<times> effect list" where
  "on_resultsRevealed rv c =
     (let c1 = c\<lparr>resultsRevealed := rv\<rparr>
      in if rv then
           (let (c2, es) = updateChartData c1
            in (c2\<lparr>selectedEstimate := None\<rparr>, es @ [ShowConfetti]))
         else (c1, []))"

subsection \<open>The service and its socket handlers\<close>

record service =
  usersSubject :: "user list"
  roomSubject :: "room option"
  votingResultsSubject :: "votingResults option"
  estimationStartedSubject :: bool
  resultsRevealedSubject :: bool

definition initialService :: service where
  "initialService =
     \<lparr> usersSubject = [], roomSubject = None, votingResultsSubject = None,
       estimationStartedSubject = False, resultsRevealedSubject = False \<rparr>"

text \<open>
  The service together with one mounted, subscribed component and the effects so far.
  \<^verbatim>\<open>subject.next(v)\<close> stores \<open>v\<close> and runs the component's callback before it returns.
\<close>

record world =
  svc :: service
  cmp :: component
  out :: "effect list"

definition initialWorld :: "string \<Rightarrow> world" where
  "initialWorld rid = \<lparr> svc = initialService, cmp = initialComponent rid, out = [] \<rparr>"

definition deliver :: "(component \<Rightarrow> component \<times> effect list) \<Rightarrow> world \<Rightarrow> world" where
  "deliver callback w =
     (let (c', es) = callback (cmp w) in w\<lparr>cmp := c', out := out w @ es\<rparr>)"

definition usersSubject_next :: "user list \<Rightarrow> world \<Rightarrow> world" where
  "usersSubject_next v w = deliver (on_users v) (w\<lparr>svc := (svc w)\<lparr>usersSubject := v\<rparr>\<rparr>)"

definition roomSubject_next :: "room option \<Rightarrow> world \<Rightarrow> world" where
  "roomSubject_next v w = deliver (on_room v) (w\<lparr>svc := (svc w)\<lparr>roomSubject := v\<rparr>\<rparr>)"

definition votingResultsSubject_next :: "votingResults option \<Rightarrow> world \<Rightarrow> world" where
  "votingResultsSubject_next v w =
     deliver (on_votingResults v) (w\<lparr>svc := (svc w)\<lparr>votingResultsSubject := v\<rparr>\<rparr>)"

definition estimationStartedSubject_next :: "bool \<Rightarrow> world \<Rightarrow> world" where
  "estimationStartedSubject_next v w =
     deliver (on_estimationStarted v) (w\<lparr>svc := (svc w)\<lparr>estimationStartedSubject := v\<rparr>\<rparr>)"

definition resultsRevealedSubject_next :: "bool \<Rightarrow> world \<Rightarrow> world" where
  "resultsRevealedSubject_next v w =
     deliver (on_resultsRevealed v) (w\<lparr>svc := (svc w)\<lparr>resultsRevealedSubject := v\<rparr>\<rparr>)"

text \<open>The summary of a \<^verbatim>\<open>votes-revealed\<close> payload (typed \<^verbatim>\<open>any\<close>): both fields may be absent.\<close>

record summary =
  summary_totalVotes :: "int option"
  mostCommon :: "string option"

datatype event =
    RoomState room "user list" votingResults
  | UserJoined user room "user list"
  | UserLeft string room "user list"
  | UserDisconnected string "user list"
  | VoteSubmitted string "user list" votingResults
  | VotesRevealed bool "user list" "summary option"
  | VotingReset "user list" votingResults
  | EstimationStarted "user list" votingResults
  | StoryUpdated story room
  | SocketError string

text \<open>The counting loop of the \<^verbatim>\<open>votes-revealed\<close> handler.\<close>

definition revealedEstimates :: "user list \<Rightarrow> counts" where
  "revealedEstimates votes =
     foldl (\<lambda>acc u. if hasVoted u \<and> truthy (estimate u) then bump acc (estimateKey u) else acc)
       [] votes"

definition revealedResults :: "bool \<Rightarrow> user list \<Rightarrow> summary option \<Rightarrow> votingResults" where
  "revealedResults rv votes sm =
     \<lparr> vr_totalVotes = (case sm of None \<Rightarrow> 0
                         | Some s \<Rightarrow> (case summary_totalVotes s of None \<Rightarrow> 0 | Some n \<Rightarrow> n)),
       vr_estimates = revealedEstimates votes,
       averageEstimate = None,
       mostCommonEstimate = (case sm of None \<Rightarrow> None | Some s \<Rightarrow> mostCommon s),
       vr_revealed = Some rv \<rparr>"

fun handle :: "event \<Rightarrow> world \<Rightarrow> world" where
  "handle (RoomState rm us results) w =
     (let w1 = roomSubject_next (Some rm) w;
          w2 = usersSubject_next us w1;
          w3 = votingResultsSubject_next (Some results) w2
      in resultsRevealedSubject_next (votingRevealed rm) w3)"
| "handle (UserJoined u rm us) w =
     (let w1 = usersSubject_next us w in roomSubject_next (Some rm) w1)"
| "handle (UserLeft uid rm us) w =
     (let w1 = usersSubject_next us w in roomSubject_next (Some rm) w1)"
| "handle (UserDisconnected uid us) w = usersSubject_next us w"
| "handle (VoteSubmitted uid us results) w =
     (let w1 = usersSubject_next us w in votingResultsSubject_next (Some results) w1)"
| "handle (VotesRevealed rv votes sm) w =
     (let w1 = votingResultsSubject_next (Some (revealedResults rv votes sm)) w;
          w2 = usersSubject_next votes w1
      in resultsRevealedSubject_next rv w2)"
| "handle (VotingReset us results) w =
     (let w1 = usersSubject_next us w;
          w2 = votingResultsSubject_next (Some results) w1;
          w3 = resultsRevealedSubject_next False w2
      in estimationStartedSubject_next False w3)"
| "handle (EstimationStarted us results) w =
     (let w1 = usersSubject_next us w;
          w2 = votingResultsSubject_next (Some results) w1;
          w3 = estimationStartedSubject_next True w2
      in resultsRevealedSubject_next False w3)"
| "handle (StoryUpdated st rm) w =
     (case roomSubject (svc w) of
        None \<Rightarrow> w
      | Some currentRoom \<Rightarrow> roomSubject_next (Some (currentRoom\<lparr>story := st\<rparr>)) w)"
| "handle (SocketError msg) w = w\<lparr>out := out w @ [ConsoleError msg]\<rparr>"

text \<open>Events are handled one after the other, in the order the transport delivers them.\<close>

definition run :: "event list \<Rightarrow> world \<Rightarrow> world" where
  "run evs w = foldl (\<lambda>w' ev. handle ev w') w evs"

section \<open>Notions used in the statements\<close>

text \<open>The distinct elements of a list, each at the place of its first occurrence.\<close>

fun firstOccurrences :: "'a list \<Rightarrow> 'a list" where
  "firstOccurrences [] = []"
| "firstOccurrences (x # xs) = x # filter (\<lambda>y. y \<noteq> x) (firstOccurrences xs)"

text \<open>The order in which \<^verbatim>\<open>Object.entries\<close> lists keys that were created in the order \<open>ks\<close>.\<close>

definition propertyOrder :: "string list \<Rightarrow> string list" where
  "propertyOrder ks = sort_key parseNat (filter isArrayIndex ks) @ filter (\<lambda>k. \<not> isArrayIndex k) ks"

text \<open>What the counting loop has stored under key \<open>k\<close> once it has seen the labels \<open>ls\<close>.\<close>

definition stored :: "string list \<Rightarrow> string \<Rightarrow> string \<times> countval" where
  "stored ls k = (k, if k \<in> set inheritedMethods then NotNumeric else Count (count_list ls k))"

text \<open>The labels the aggregator counts, in the order of the participant list.\<close>

definition countedLabels :: "component \<Rightarrow> string list" where
  "countedLabels c = map estimateKey (votingUsers (users c))"

section \<open>Example states\<close>

definition voter :: "string \<Rightarrow> estimate \<Rightarrow> user" where
  "voter uid e =
     \<lparr> user_id = uid, user_name = uid, estimate = Some e, hasVoted = True,
       isAdmin = Some False, connected = Some True \<rparr>"

definition alice :: user where
  "alice =
     \<lparr> user_id = ''a1'', user_name = ''Alice'', estimate = None, hasVoted = False,
       isAdmin = Some False, connected = Some True \<rparr>"

text \<open>A joined participant while estimation is in progress, nothing selected yet.\<close>

definition votingComponent :: component where
  "votingComponent = (initialComponent ''r1'')\<lparr>currentUser := Some alice, estimationStarted := True\<rparr>"

definition noResults :: votingResults where
  "noResults =
     \<lparr> vr_totalVotes = 0, vr_estimates = [], averageEstimate = None,
       mostCommonEstimate = None, vr_revealed = None \<rparr>"

definition exampleRoom :: room where
  "exampleRoom =
     \<lparr> room_id = ''r1'', room_name = ''Story Point Poker Room'', userCount = 1,
       adminName = ''Room Admin'', story = \<lparr> title = ''Login page'', description = [] \<rparr>,
       votingRevealed = False, room_estimationStarted = False,
       createdAt = ''2025-01-01'', lastActivity = ''2025-01-01'' \<rparr>"

text \<open>Three participants, none an admin, who voted 5, 5 and 8; results revealed.\<close>

definition fiveFiveEight :: component where
  "fiveFiveEight =
     (initialComponent ''r1'')
       \<lparr>users := [voter ''u1'' (EstNumber 5), voter ''u2'' (EstNumber 5), voter ''u3'' (EstNumber 8)],
        estimationStarted := True, resultsRevealed := True\<rparr>"

text \<open>Two votes for 5 and a participant who has not voted.\<close>

definition singleEstimate :: component where
  "singleEstimate =
     (initialComponent ''r1'')
       \<lparr>users := [voter ''u1'' (EstNumber 5), alice, voter ''u2'' (EstNumber 5)],
        estimationStarted := True, resultsRevealed := True\<rparr>"


text \<open>Votes 8, info, 5 and the string 5, next to an admin who voted 13 and a
  participant who has not voted.\<close>

definition mixedVotes :: component where
  "mixedVotes =
     (initialComponent ''r1'')
       \<lparr>users := [voter ''u1'' (EstNumber 8), voter ''u2'' (EstString ''info''),
                  voter ''u3'' (EstNumber 5), (voter ''u4'' (EstNumber 13))\<lparr>isAdmin := Some True\<rparr>,
                  alice, voter ''u5'' (EstString ''5'')],
        estimationStarted := True, resultsRevealed := True\<rparr>"

text \<open>A participant whose estimate is the string \<^verbatim>\<open>__proto__\<close>, and one who voted 5.\<close>

definition protoVotes :: component where
  "protoVotes =
     (initialComponent ''r1'')
       \<lparr>users := [voter ''u1'' (EstString ''__proto__''), voter ''u2'' (EstNumber 5)],
        estimationStarted := True, resultsRevealed := True\<rparr>"

text \<open>A single participant whose estimate is the string \<^verbatim>\<open>constructor\<close>.\<close>

definition constructorVote :: component where
  "constructorVote =
     (initialComponent ''r1'')
       \<lparr>users := [voter ''u1'' (EstString ''constructor'')],
        estimationStarted := True, resultsRevealed := True\<rparr>"

text \<open>A single participant whose estimate is the string \<^verbatim>\<open>__proto__\<close>.\<close>

definition protoVote :: component where
  "protoVote =
     (initialComponent ''r1'')
       \<lparr>users := [voter ''u1'' (EstString ''__proto__'')],
        estimationStarted := True, resultsRevealed := True\<rparr>"

section \<open>Auxiliary facts\<close>

lemma number_plus [simp]:
  "Fin x + Fin y = Fin (x + y)" "NaN + b = NaN" "a + NaN = NaN"
  by (simp_all add: plus_number_def split: number.splits)

lemma number_minus [simp]:
  "Fin x - Fin y = Fin (x - y)" "NaN - b = NaN" "a - NaN = NaN"
  by (simp_all add: minus_number_def split: number.splits)

lemma number_times [simp]:
  "Fin x * Fin y = Fin (x * y)" "NaN * b = NaN" "a * NaN = NaN"
  by (simp_all add: times_number_def split: number.splits)

lemma number_divide [simp]:
  "Fin x / Fin y = (if y = 0 then NaN else Fin (x / y))" "NaN / b = NaN" "a / NaN = NaN"
  by (simp_all add: divide_number_def split: number.splits)

lemma number_le [simp]:
  "(Fin x \<le> Fin y) = (x \<le> y)" "(NaN \<le> b) = False" "(a \<le> NaN) = False"
  by (simp_all add: less_eq_number_def split: number.splits)

lemma number_less [simp]:
  "(Fin x < Fin y) = (x < y)" "(NaN < b) = False" "(a < NaN) = False"
  by (simp_all add: less_number_def split: number.splits)

lemma showNat_digit: "n < 10 \<Longrightarrow> showNat n = [digitChar n]"
  by (simp add: showNat.simps [of n])

lemma mapEntries_pathData:
  "seg \<in> set (mapEntries c t cum i es) \<Longrightarrow> \<not> Fin 99.9 \<le> percentage seg \<Longrightarrow>
     pathData seg = Some (getSegmentPath c seg)"
proof (induction es arbitrary: cum i)
  case Nil
  then show ?case by simp
next
  case (Cons e es)
  obtain k v where e: "e = (k, v)" by (cases e)
  from Cons.prems show ?case
    by (auto simp: e Let_def getSegmentPath_def dest: Cons.IH)
qed

lemma mapEntries_percentage:
  "map percentage (mapEntries c t cum i es) = map (\<lambda>e. toNumber (snd e) / Fin (real t) * Fin 100) es"
  by (induction es arbitrary: cum i) (auto simp: Let_def)

lemma mapEntries_label:
  "map label (mapEntries c t cum i es) = map (\<lambda>e. getEstimateLabel (fst e)) es"
  by (induction es arbitrary: cum i) (auto simp: Let_def)

lemma mapEntries_value:
  "map seg_value (mapEntries c t cum i es) = map snd es"
  by (induction es arbitrary: cum i) (auto simp: Let_def)

lemma mapEntries_length [simp]: "length (mapEntries c t cum i es) = length es"
  by (induction es arbitrary: cum i) (auto simp: Let_def)


lemma mapEntries_color:
  "j < length es \<Longrightarrow> color (mapEntries c t cum i es ! j) = colors ! ((i + j) mod length colors)"
proof (induction es arbitrary: cum i j)
  case Nil
  then show ?case by simp
next
  case (Cons e es)
  obtain k v where e: "e = (k, v)" by (cases e)
  show ?case
  proof (cases j)
    case 0
    then show ?thesis by (simp add: e Let_def)
  next
    case (Suc j')
    with Cons.prems have "j' < length es" by simp
    from Cons.IH [OF this] show ?thesis
      by (simp add: e Suc Let_def)
  qed
qed


lemma set_firstOccurrences [simp]: "set (firstOccurrences xs) = set xs"
  by (induction xs) auto

lemma distinct_firstOccurrences [simp]: "distinct (firstOccurrences xs)"
  by (induction xs) auto

lemma firstOccurrences_snoc:
  "firstOccurrences (xs @ [x]) =
     (if x \<in> set xs then firstOccurrences xs else firstOccurrences xs @ [x])"
  by (induction xs) auto

lemma map_of_stored:
  "map_of (map (stored ls) ks) x = (if x \<in> set ks then Some (snd (stored ls x)) else None)"
  by (induction ks) (auto simp: stored_def)

lemma proto_not_method: "protoKey \<notin> set inheritedMethods"
  by (simp add: protoKey_def inheritedMethods_def)

lemma stored_snoc_other: "k \<noteq> x \<Longrightarrow> stored (ls @ [x]) k = stored ls k"
  by (simp add: stored_def)

lemma foldl_bump_stored:
  "foldl bump [] ls = map (stored ls) (filter (\<lambda>k. k \<noteq> protoKey) (firstOccurrences ls))"
proof (induction ls rule: rev_induct)
  case Nil
  show ?case by simp
next
  case (snoc x ls)
  let ?ks = "filter (\<lambda>k. k \<noteq> protoKey) (firstOccurrences ls)"
  let ?cs = "map (stored ls) ?ks"
  have step: "foldl bump [] (ls @ [x]) = bump ?cs x"
    by (simp add: snoc.IH)
  show ?case
  proof (cases "x = protoKey")
    case True
    have "bump ?cs x = ?cs"
      by (simp add: bump_def map_of_stored True)
    moreover have "map (stored (ls @ [x])) (filter (\<lambda>k. k \<noteq> protoKey) (firstOccurrences (ls @ [x]))) = ?cs"
      by (auto simp: firstOccurrences_snoc True intro!: map_cong stored_snoc_other)
    ultimately show ?thesis using step by simp
  next
    case notProto: False
    show ?thesis
    proof (cases "x \<in> set ls")
      case seen: True
      then have in_ks: "x \<in> set ?ks" using notProto by simp
      have keys: "filter (\<lambda>k. k \<noteq> protoKey) (firstOccurrences (ls @ [x])) = ?ks"
        by (simp add: firstOccurrences_snoc seen)
      show ?thesis
      proof (cases "x \<in> set inheritedMethods")
        case True
        have "bump ?cs x = ?cs"
          using in_ks by (simp add: bump_def map_of_stored stored_def True)
        moreover have "map (stored (ls @ [x])) ?ks = ?cs"
          by (rule map_cong) (auto simp: stored_def True)
        ultimately show ?thesis using step keys by simp
      next
        case False
        have "bump ?cs x =
                map (\<lambda>(k', v). if k' = x then (k', Count (count_list ls x + 1)) else (k', v)) ?cs"
          using in_ks by (simp add: bump_def map_of_stored stored_def False)
        also have "\<dots> = map (stored (ls @ [x])) ?ks"
          by (auto simp: stored_def False)
        finally show ?thesis using step keys by simp
      qed
    next
      case fresh: False
      then have out_ks: "x \<notin> set ?ks" by simp
      have keys: "filter (\<lambda>k. k \<noteq> protoKey) (firstOccurrences (ls @ [x])) = ?ks @ [x]"
        using notProto by (simp add: firstOccurrences_snoc fresh)
      have same: "map (stored (ls @ [x])) ?ks = ?cs"
      proof (rule map_cong [OF refl])
        fix k assume "k \<in> set ?ks"
        with out_ks have "k \<noteq> x" by auto
        then show "stored (ls @ [x]) k = stored ls k" by (rule stored_snoc_other)
      qed
      have new: "stored (ls @ [x]) x =
                   (x, if x \<in> set inheritedMethods then NotNumeric else Count 1)"
        using fresh by (simp add: stored_def)
      have "bump ?cs x = ?cs @ [(x, if x \<in> set inheritedMethods then NotNumeric else Count 1)]"
        using out_ks notProto by (simp add: bump_def map_of_stored)
      then show ?thesis using step keys same new by simp
    qed
  qed
qed

lemma insort_key_map:
  "insort_key f (g x) (map g xs) = map g (insort_key (\<lambda>y. f (g y)) x xs)"
  by (induction xs) auto

lemma sort_key_map:
  "sort_key f (map g xs) = map g (sort_key (\<lambda>y. f (g y)) xs)"
  by (induction xs) (auto simp: insort_key_map)

lemma Object_entries_map:
  assumes "\<And>k. fst (g k) = k"
  shows "Object_entries (map g ks) = map g (propertyOrder ks)"
  by (simp add: Object_entries_def propertyOrder_def filter_map comp_def assms sort_key_map)

lemma fst_stored [simp]: "fst (stored ls k) = k"
  by (simp add: stored_def)

lemma length_Object_entries [simp]: "length (Object_entries ps) = length ps"
  by (simp add: Object_entries_def sum_length_filter_compl)

lemma set_Object_entries [simp]: "set (Object_entries ps) = set ps"
  by (auto simp: Object_entries_def)

lemma set_propertyOrder [simp]: "set (propertyOrder ks) = set ks"
  by (auto simp: propertyOrder_def)

lemma countVotes_stored:
  "countVotes vs =
     map (stored (map estimateKey vs))
       (filter (\<lambda>k. k \<noteq> protoKey) (firstOccurrences (map estimateKey vs)))"
  by (simp add: countVotes_def foldl_bump_stored)

lemma entries_stored:
  "Object_entries (countVotes vs) =
     map (stored (map estimateKey vs))
       (propertyOrder (filter (\<lambda>k. k \<noteq> protoKey) (firstOccurrences (map estimateKey vs))))"
  by (simp add: countVotes_stored Object_entries_map)

lemma chartSegments_generate:
  "chartSegments (fst (generateChartData c)) =
     mapEntries c (length (countedLabels c)) (Fin 0) 0
       (map (stored (countedLabels c))
          (propertyOrder (filter (\<lambda>k. k \<noteq> protoKey) (firstOccurrences (countedLabels c)))))"
  by (simp add: generateChartData_def Let_def entries_stored countedLabels_def)

lemma entries_total_pos: "Object_entries (countVotes vs) \<noteq> [] \<Longrightarrow> 0 < length vs"
  by (cases vs) (simp_all add: countVotes_def Object_entries_def)

lemma count_list_full: "count_list xs k = length xs \<Longrightarrow> set xs \<subseteq> {k}"
proof (induction xs)
  case Nil
  then show ?case by simp
next
  case (Cons x xs)
  have "count_list xs k \<le> length xs" by (rule count_le_length)
  with Cons.prems have "x = k \<and> count_list xs k = length xs"
    by (auto split: if_splits)
  with Cons.IH show ?case by simp
qed

lemma distinct_single: "distinct xs \<Longrightarrow> set xs = {k} \<Longrightarrow> xs = [k]"
proof -
  assume d: "distinct xs" and s: "set xs = {k}"
  from d have "length xs = card (set xs)" by (simp add: distinct_card)
  with s have "length xs = 1" by simp
  then obtain y where "xs = [y]" by (cases xs) auto
  with s show ?thesis by simp
qed

lemma mapEntries_shape:
  "seg \<in> set (mapEntries c t cum i es) \<Longrightarrow>
     (Fin 99.9 \<le> percentage seg \<longrightarrow>
        pathData seg =
          Some [Txt ''M '', Val (Fin (chartCenterX c)), Txt '' '',
                Val (Fin (chartCenterY c - chartRadius c)),
                Txt '' A '', Val (Fin (chartRadius c)), Txt '' '', Val (Fin (chartRadius c)),
                Txt '' 0 1 1 '', Val (Fin (chartCenterX c - 0.1)), Txt '' '',
                Val (Fin (chartCenterY c - chartRadius c)), Txt '' Z''])
     \<and> (\<not> Fin 99.9 \<le> percentage seg \<longrightarrow>
        (\<exists>x1 y1 x2 y2.
           pathData seg =
             Some [Txt ''M '', Val (Fin (chartCenterX c)), Txt '' '', Val (Fin (chartCenterY c)),
                   Txt '' L '', Val x1, Txt '' '', Val y1,
                   Txt '' A '', Val (Fin (chartRadius c)), Txt '' '', Val (Fin (chartRadius c)),
                   Txt '' 0 '', Val (if Fin 50 < percentage seg then Fin 1 else Fin 0),
                   Txt '' 1 '', Val x2, Txt '' '', Val y2, Txt '' Z'']))"
proof (induction es arbitrary: cum i)
  case Nil
  then show ?case by simp
next
  case (Cons e es)
  obtain k v where e: "e = (k, v)" by (cases e)
  from Cons.prems consider
      (head) "seg = hd (mapEntries c t cum i (e # es))"
    | (tail) "seg \<in> set (mapEntries c t (cum + toNumber v / Fin (real t) * Fin 100) (i + 1) es)"
    by (auto simp: e Let_def)
  then show ?case
  proof cases
    case head
    then show ?thesis by (simp add: e Let_def)
  next
    case tail
    then show ?thesis by (rule Cons.IH)
  qed
qed

lemma full_percentage_single:
  assumes "seg \<in> set (chartSegments (fst (generateChartData c)))"
    and "percentage seg = Fin 100"
  shows "length (chartSegments (fst (generateChartData c))) = 1"
proof -
  let ?ls = "countedLabels c"
  let ?ks = "filter (\<lambda>k. k \<noteq> protoKey) (firstOccurrences ?ls)"
  let ?es = "map (stored ?ls) (propertyOrder ?ks)"
  from assms(1) have "percentage seg \<in> set (map percentage (mapEntries c (length ?ls) (Fin 0) 0 ?es))"
    by (simp add: chartSegments_generate)
  then obtain k where k: "k \<in> set ?ks"
    and pct: "percentage seg = toNumber (snd (stored ?ls k)) / Fin (real (length ?ls)) * Fin 100"
    by (auto simp: mapEntries_percentage)
  from pct assms(2) have nonempty: "?ls \<noteq> []"
    and ratio: "real (count_list ?ls k) / real (length ?ls) * 100 = 100"
    by (auto simp: stored_def split: if_splits)
  from ratio nonempty have "real (count_list ?ls k) = real (length ?ls)"
    by (simp add: field_simps)
  then have full: "count_list ?ls k = length ?ls"
    by simp
  then have "set ?ls \<subseteq> {k}" by (rule count_list_full)
  moreover from k have "k \<in> set ?ls" by simp
  ultimately have "set (firstOccurrences ?ls) = {k}" by auto
  then have "firstOccurrences ?ls = [k]"
    by (intro distinct_single) simp_all
  moreover from k have "k \<noteq> protoKey" by simp
  ultimately have "?ks = [k]" by simp
  then show ?thesis
    by (simp add: chartSegments_generate propertyOrder_def)
qed

lemmas eval_defs = countedLabels_def votingUsers_def counted_def voter_def alice_def estimateKey_def
  initialComponent_def showNat_digit digitChar_def

lemma labels_fiveFiveEight: "countedLabels fiveFiveEight = [''5'', ''5'', ''8'']"
  by (simp add: fiveFiveEight_def eval_defs)

lemma labels_mixedVotes: "countedLabels mixedVotes = [''8'', ''info'', ''5'', ''5'']"
  by (simp add: mixedVotes_def eval_defs)

lemma labels_protoVotes: "countedLabels protoVotes = [''__proto__'', ''5'']"
  by (simp add: protoVotes_def eval_defs)

lemmas order_defs = propertyOrder_def isArrayIndex_def isDigit_def parseNat_def digitVal_def protoKey_def

lemma order_58: "propertyOrder [''5'', ''8''] = [''5'', ''8'']"
  by (simp add: order_defs)

lemma order_8i5: "propertyOrder [''8'', ''info'', ''5''] = [''5'', ''8'', ''info'']"
  by (simp add: order_defs)

lemma labels_singleEstimate: "countedLabels singleEstimate = [''5'', ''5'']"
  by (simp add: singleEstimate_def eval_defs)



lemma order_5: "propertyOrder [''5''] = [''5'']"
  by (simp add: order_defs)

lemma plain_labels:
  assumes "list_all (\<lambda>k. k \<notin> set inheritedNames) ls"
  shows "filter (\<lambda>k. k \<noteq> protoKey) (firstOccurrences ls) = firstOccurrences ls"
    and "k \<in> set ls \<Longrightarrow> stored ls k = (k, Count (count_list ls k))"
proof -
  from assms have none: "\<And>x. x \<in> set ls \<Longrightarrow> x \<noteq> protoKey \<and> x \<notin> set inheritedMethods"
    by (auto simp: list_all_iff inheritedNames_def)
  then show "filter (\<lambda>k. k \<noteq> protoKey) (firstOccurrences ls) = firstOccurrences ls"
    by (simp add: filter_id_conv)
  assume "k \<in> set ls"
  with none show "stored ls k = (k, Count (count_list ls k))"
    by (simp add: stored_def)
qed

lemma plain_segments:
  assumes plain: "list_all (\<lambda>k. k \<notin> set inheritedNames) (countedLabels c)"
  shows "map label (chartSegments (fst (generateChartData c))) =
           map getEstimateLabel (propertyOrder (firstOccurrences (countedLabels c)))"
    and "map seg_value (chartSegments (fst (generateChartData c))) =
           map (\<lambda>k. Count (count_list (countedLabels c) k))
             (propertyOrder (firstOccurrences (countedLabels c)))"
    and "map percentage (chartSegments (fst (generateChartData c))) =
           map (\<lambda>k. Fin (real (count_list (countedLabels c) k) / real (length (countedLabels c)) * 100))
             (propertyOrder (firstOccurrences (countedLabels c)))"
proof -
  let ?ls = "countedLabels c"
  let ?ks = "propertyOrder (firstOccurrences ?ls)"
  have segs: "chartSegments (fst (generateChartData c)) =
                mapEntries c (length ?ls) (Fin 0) 0 (map (stored ?ls) ?ks)"
    by (simp add: chartSegments_generate plain_labels(1) [OF plain])
  have val: "stored ?ls k = (k, Count (count_list ?ls k))" if "k \<in> set ?ks" for k
    using that by (intro plain_labels(2) [OF plain]) simp
  show "map label (chartSegments (fst (generateChartData c))) = map getEstimateLabel ?ks"
    by (simp add: segs mapEntries_label comp_def del: mapEntries.simps)
  show "map seg_value (chartSegments (fst (generateChartData c))) =
          map (\<lambda>k. Count (count_list ?ls k)) ?ks"
    by (simp add: segs mapEntries_value val del: mapEntries.simps)
  have pct: "toNumber (snd (stored ?ls k)) / Fin (real (length ?ls)) * Fin 100 =
               Fin (real (count_list ?ls k) / real (length ?ls) * 100)" if "k \<in> set ?ks" for k
  proof -
    from that have "?ls \<noteq> []" by auto
    then show ?thesis by (simp add: val [OF that])
  qed
  show "map percentage (chartSegments (fst (generateChartData c))) =
          map (\<lambda>k. Fin (real (count_list ?ls k) / real (length ?ls) * 100)) ?ks"
    by (simp add: segs mapEntries_percentage pct del: mapEntries.simps)
qed


lemma segments_fiveFiveEight:
  "map label (chartSegments (fst (generateChartData fiveFiveEight))) = [''5'', ''8'']"
  "map seg_value (chartSegments (fst (generateChartData fiveFiveEight))) = [Count 2, Count 1]"
  "map percentage (chartSegments (fst (generateChartData fiveFiveEight))) = [Fin (200 / 3), Fin (100 / 3)]"
  "map offset (chartSegments (fst (generateChartData fiveFiveEight))) = [Fin 0, Fin (200 / 3)]"
  "length (chartSegments (fst (generateChartData fiveFiveEight))) = 2"
  by (simp_all add: chartSegments_generate labels_fiveFiveEight protoKey_def order_58 stored_def
      inheritedMethods_def getEstimateLabel_def Let_def)

lemma segments_singleEstimate:
  "map percentage (chartSegments (fst (generateChartData singleEstimate))) = [Fin 100]"
  "length (chartSegments (fst (generateChartData singleEstimate))) = 1"
  by (simp_all add: chartSegments_generate labels_singleEstimate protoKey_def order_5 stored_def
      inheritedMethods_def Let_def)

lemma segments_mixedVotes:
  "map label (chartSegments (fst (generateChartData mixedVotes))) = [''5'', ''8'', label_info]"
  "map seg_value (chartSegments (fst (generateChartData mixedVotes))) = [Count 2, Count 1, Count 1]"
  "map percentage (chartSegments (fst (generateChartData mixedVotes))) = [Fin 50, Fin 25, Fin 25]"
  by (simp_all add: chartSegments_generate labels_mixedVotes protoKey_def order_8i5 stored_def
      inheritedMethods_def getEstimateLabel_def Let_def)

lemma labels_constructorVote: "countedLabels constructorVote = [''constructor'']"
  by (simp add: constructorVote_def eval_defs)

lemma order_plain: "propertyOrder [''constructor''] = [''constructor'']"
  by (simp add: order_defs)

lemma foldl_plus_Fin:
  "foldl (+) (Fin a) (map (\<lambda>k. Fin (f k)) ks) = Fin (a + sum_list (map f ks))"
  by (induction ks arbitrary: a) (simp_all add: add.assoc)

lemma distinct_propertyOrder: "distinct ks \<Longrightarrow> distinct (propertyOrder ks)"
  by (auto simp: propertyOrder_def distinct_sort)

lemma counts_total:
  "sum_list (map (count_list ls) (propertyOrder (firstOccurrences ls))) = length ls"
proof -
  have "sum_list (map (count_list ls) (propertyOrder (firstOccurrences ls))) =
          sum (count_list ls) (set (propertyOrder (firstOccurrences ls)))"
    by (rule sum_list_distinct_conv_sum_set) (simp add: distinct_propertyOrder)
  also have "\<dots> = length ls"
    by (simp add: sum_count_set)
  finally show ?thesis .
qed

lemma percentages_total:
  assumes "ls \<noteq> []"
  shows "sum_list (map (\<lambda>k. real (count_list ls k) / real (length ls) * 100)
           (propertyOrder (firstOccurrences ls))) = 100"
proof -
  let ?ks = "propertyOrder (firstOccurrences ls)"
  have "sum_list (map (\<lambda>k. real (count_list ls k) / real (length ls) * 100) ?ks) =
          sum_list (map (\<lambda>k. real (count_list ls k) * (100 / real (length ls))) ?ks)"
    by (simp add: field_simps)
  also have "\<dots> = sum_list (map (\<lambda>k. real (count_list ls k)) ?ks) * (100 / real (length ls))"
    by (rule sum_list_mult_const)
  also have "sum_list (map (\<lambda>k. real (count_list ls k)) ?ks) =
               real (sum_list (map (count_list ls) ?ks))"
    using sum_list_of_nat [of "map (count_list ls) ?ks", where ?'a = real]
    by (simp add: comp_def)
  also have "\<dots> = real (length ls)"
    by (simp add: counts_total)
  finally show ?thesis using assms by simp
qed

lemma percentages_sum:
  "(\<not> resultsRevealed c \<longrightarrow> chartSegments (fst (updateChartData c)) = [])
   \<and> (resultsRevealed c \<and> countedLabels c \<noteq> []
        \<and> list_all (\<lambda>k. k \<notin> set inheritedNames) (countedLabels c) \<longrightarrow>
      foldl (+) (Fin 0) (map percentage (chartSegments (fst (updateChartData c)))) = Fin 100)"
proof (intro conjI impI)
  assume "\<not> resultsRevealed c"
  then show "chartSegments (fst (updateChartData c)) = []"
    by (simp add: updateChartData_def)
next
  assume "resultsRevealed c \<and> countedLabels c \<noteq> []
        \<and> list_all (\<lambda>k. k \<notin> set inheritedNames) (countedLabels c)"
  then have rev: "resultsRevealed c" and some: "countedLabels c \<noteq> []"
    and plain: "list_all (\<lambda>k. k \<notin> set inheritedNames) (countedLabels c)"
    by simp_all
  from rev have "chartSegments (fst (updateChartData c)) = chartSegments (fst (generateChartData c))"
    by (simp add: updateChartData_def)
  then have "foldl (+) (Fin 0) (map percentage (chartSegments (fst (updateChartData c)))) =
               Fin (0 + sum_list (map (\<lambda>k. real (count_list (countedLabels c) k)
                                          / real (length (countedLabels c)) * 100)
                                   (propertyOrder (firstOccurrences (countedLabels c)))))"
    by (simp only: plain_segments(3) [OF plain] foldl_plus_Fin)
  also have "\<dots> = Fin 100"
    by (simp only: percentages_total [OF some]) simp
  finally show "foldl (+) (Fin 0) (map percentage (chartSegments (fst (updateChartData c)))) = Fin 100" .
qed

lemma first_fiveFiveEight:
  "chartSegments (fst (generateChartData fiveFiveEight)) ! 0
     \<in> set (chartSegments (fst (generateChartData fiveFiveEight)))"
  "percentage (chartSegments (fst (generateChartData fiveFiveEight)) ! 0) = Fin (200 / 3)"
proof -
  have len: "0 < length (chartSegments (fst (generateChartData fiveFiveEight)))"
    by (simp only: segments_fiveFiveEight(5))
  then show "chartSegments (fst (generateChartData fiveFiveEight)) ! 0
     \<in> set (chartSegments (fst (generateChartData fiveFiveEight)))"
    by (rule nth_mem)
  from len have "percentage (chartSegments (fst (generateChartData fiveFiveEight)) ! 0) =
      map percentage (chartSegments (fst (generateChartData fiveFiveEight))) ! 0"
    by (simp only: nth_map)
  then show "percentage (chartSegments (fst (generateChartData fiveFiveEight)) ! 0) = Fin (200 / 3)"
    by (simp only: segments_fiveFiveEight(3) nth_Cons_0)
qed

lemma first_singleEstimate:
  "chartSegments (fst (generateChartData singleEstimate)) ! 0
     \<in> set (chartSegments (fst (generateChartData singleEstimate)))"
  "percentage (chartSegments (fst (generateChartData singleEstimate)) ! 0) = Fin 100"
proof -
  have len: "0 < length (chartSegments (fst (generateChartData singleEstimate)))"
    by (simp only: segments_singleEstimate(2))
  then show "chartSegments (fst (generateChartData singleEstimate)) ! 0
     \<in> set (chartSegments (fst (generateChartData singleEstimate)))"
    by (rule nth_mem)
  from len have "percentage (chartSegments (fst (generateChartData singleEstimate)) ! 0) =
      map percentage (chartSegments (fst (generateChartData singleEstimate))) ! 0"
    by (simp only: nth_map)
  then show "percentage (chartSegments (fst (generateChartData singleEstimate)) ! 0) = Fin 100"
    by (simp only: segments_singleEstimate(1) nth_Cons_0)
qed

lemma labels_protoVote: "countedLabels protoVote = [''__proto__'']"
  by (simp add: protoVote_def eval_defs)

lemma propertyOrder_single: "propertyOrder [k] = [k]"
  by (simp add: propertyOrder_def)

lemma count_list_same: "set xs \<subseteq> {k} \<Longrightarrow> count_list xs k = length xs"
  by (induction xs) auto

lemma single_label_full_circle:
  assumes some: "countedLabels c \<noteq> []"
    and same: "set (countedLabels c) \<subseteq> {k}"
    and plain: "k \<notin> set inheritedNames"
  shows "\<exists>seg. chartSegments (fst (generateChartData c)) = [seg]
           \<and> label seg = getEstimateLabel k
           \<and> seg_value seg = Count (length (countedLabels c))
           \<and> percentage seg = Fin 100
           \<and> offset seg = Fin 0
           \<and> pathData seg =
               Some [Txt ''M '', Val (Fin (chartCenterX c)), Txt '' '',
                     Val (Fin (chartCenterY c - chartRadius c)),
                     Txt '' A '', Val (Fin (chartRadius c)), Txt '' '', Val (Fin (chartRadius c)),
                     Txt '' 0 1 1 '', Val (Fin (chartCenterX c - 0.1)), Txt '' '',
                     Val (Fin (chartCenterY c - chartRadius c)), Txt '' Z'']"
proof -
  let ?ls = "countedLabels c"
  from some same have set_ls: "set ?ls = {k}" by (cases ?ls) auto
  then have "set (firstOccurrences ?ls) = {k}" by simp
  then have first: "firstOccurrences ?ls = [k]"
    by (intro distinct_single) simp_all
  from same have full: "count_list ?ls k = length ?ls"
    by (rule count_list_same)
  from plain have notProto: "k \<noteq> protoKey" and notMethod: "k \<notin> set inheritedMethods"
    by (simp_all add: inheritedNames_def)
  from some have pos: "real (length ?ls) \<noteq> 0" by simp
  have segs: "chartSegments (fst (generateChartData c)) =
                mapEntries c (length ?ls) (Fin 0) 0 [(k, Count (length ?ls))]"
    by (simp add: chartSegments_generate first notProto propertyOrder_single stored_def notMethod full
        del: mapEntries.simps)
  show ?thesis
    using pos by (simp add: segs Let_def)
qed

section \<open>Properties of the result aggregator\<close>

text \<open>
  Claim C1 holds for the first half: with the reveal flag false \<^verbatim>\<open>updateChartData\<close>
  leaves no wedge.  The second half fails on the code for labels that an ordinary object
  inherits.  The two evaluations below are the failing inputs: every participant is a
  non-admin who voted with a non-empty estimate and the results are revealed, yet with
  the votes \<^verbatim>\<open>__proto__\<close> and 5 the only wedge has 50 per cent (the first vote is
  counted in the total and stored nowhere), and with the single vote
  \<^verbatim>\<open>constructor\<close> the percentage is \<^verbatim>\<open>NaN\<close>.  For labels that are not inherited
  names the sum is 100: see \<open>percentages_sum\<close>.
\<close>

theorem inherited_label_percentages:
  "resultsRevealed protoVotes
   \<and> list_all counted (users protoVotes)
   \<and> map percentage (chartSegments (fst (updateChartData protoVotes))) = [Fin 50]
   \<and> foldl (+) (Fin 0) (map percentage (chartSegments (fst (updateChartData protoVotes)))) = Fin 50
   \<and> resultsRevealed constructorVote
   \<and> list_all counted (users constructorVote)
   \<and> map percentage (chartSegments (fst (updateChartData constructorVote))) = [NaN]
   \<and> foldl (+) (Fin 0) (map percentage (chartSegments (fst (updateChartData constructorVote)))) = NaN"
proof -
  have revealed: "resultsRevealed protoVotes" "resultsRevealed constructorVote"
    by (simp_all add: protoVotes_def constructorVote_def)
  have voters: "list_all counted (users protoVotes)" "list_all counted (users constructorVote)"
    by (simp_all add: protoVotes_def constructorVote_def counted_def voter_def)
  have proto: "map percentage (chartSegments (fst (generateChartData protoVotes))) = [Fin 50]"
    by (simp add: chartSegments_generate labels_protoVotes protoKey_def order_5 stored_def
        inheritedMethods_def mapEntries_percentage del: mapEntries.simps)
  have ctor: "map percentage (chartSegments (fst (generateChartData constructorVote))) = [NaN]"
    by (simp add: chartSegments_generate labels_constructorVote protoKey_def order_plain stored_def
        inheritedMethods_def mapEntries_percentage del: mapEntries.simps)
  show ?thesis
    using revealed voters proto ctor by (simp add: updateChartData_def)
qed




text \<open>
  The shape of the paths.  For every wedge \<^verbatim>\<open>generateChartData\<close> produces: if its
  percentage is at least 99.9, its path is the full-circle path, an arc with both flags
  set from the top of the circle to a point a tenth of a unit to the left of it, so not
  an arc of zero length; otherwise its path is the wedge path, whose large-arc flag is 1
  when the percentage exceeds 50 and 0 when it does not.  A wedge whose percentage is 100
  is the only wedge.
\<close>

theorem wedge_path_shape:
  "(\<forall>seg \<in> set (chartSegments (fst (generateChartData c))).
      (Fin 99.9 \<le> percentage seg \<longrightarrow>
         pathData seg =
           Some [Txt ''M '', Val (Fin (chartCenterX c)), Txt '' '',
                 Val (Fin (chartCenterY c - chartRadius c)),
                 Txt '' A '', Val (Fin (chartRadius c)), Txt '' '', Val (Fin (chartRadius c)),
                 Txt '' 0 1 1 '', Val (Fin (chartCenterX c - 0.1)), Txt '' '',
                 Val (Fin (chartCenterY c - chartRadius c)), Txt '' Z''])
      \<and> (\<not> Fin 99.9 \<le> percentage seg \<longrightarrow>
         (\<exists>x1 y1 x2 y2.
            pathData seg =
              Some [Txt ''M '', Val (Fin (chartCenterX c)), Txt '' '', Val (Fin (chartCenterY c)),
                    Txt '' L '', Val x1, Txt '' '', Val y1,
                    Txt '' A '', Val (Fin (chartRadius c)), Txt '' '', Val (Fin (chartRadius c)),
                    Txt '' 0 '', Val (if Fin 50 < percentage seg then Fin 1 else Fin 0),
                    Txt '' 1 '', Val x2, Txt '' '', Val y2, Txt '' Z''])))
   \<and> Fin (chartCenterX c - 0.1) \<noteq> Fin (chartCenterX c)
   \<and> ((\<exists>seg \<in> set (chartSegments (fst (generateChartData c))). percentage seg = Fin 100) \<longrightarrow>
        length (chartSegments (fst (generateChartData c))) = 1)"
proof (intro conjI ballI)
  fix seg assume "seg \<in> set (chartSegments (fst (generateChartData c)))"
  then have "seg \<in> set (mapEntries c (length (countedLabels c)) (Fin 0) 0
      (map (stored (countedLabels c))
         (propertyOrder (filter (\<lambda>k. k \<noteq> protoKey) (firstOccurrences (countedLabels c))))))"
    by (simp add: chartSegments_generate)
  from mapEntries_shape [OF this]
  show "Fin 99.9 \<le> percentage seg \<longrightarrow>
         pathData seg =
           Some [Txt ''M '', Val (Fin (chartCenterX c)), Txt '' '',
                 Val (Fin (chartCenterY c - chartRadius c)),
                 Txt '' A '', Val (Fin (chartRadius c)), Txt '' '', Val (Fin (chartRadius c)),
                 Txt '' 0 1 1 '', Val (Fin (chartCenterX c - 0.1)), Txt '' '',
                 Val (Fin (chartCenterY c - chartRadius c)), Txt '' Z'']"
    and "\<not> Fin 99.9 \<le> percentage seg \<longrightarrow>
         (\<exists>x1 y1 x2 y2.
            pathData seg =
              Some [Txt ''M '', Val (Fin (chartCenterX c)), Txt '' '', Val (Fin (chartCenterY c)),
                    Txt '' L '', Val x1, Txt '' '', Val y1,
                    Txt '' A '', Val (Fin (chartRadius c)), Txt '' '', Val (Fin (chartRadius c)),
                    Txt '' 0 '', Val (if Fin 50 < percentage seg then Fin 1 else Fin 0),
                    Txt '' 1 '', Val x2, Txt '' '', Val y2, Txt '' Z''])"
    by blast+
next
  show "Fin (chartCenterX c - 0.1) \<noteq> Fin (chartCenterX c)" by simp
next
  show "(\<exists>seg \<in> set (chartSegments (fst (generateChartData c))). percentage seg = Fin 100) \<longrightarrow>
        length (chartSegments (fst (generateChartData c))) = 1"
    using full_percentage_single by blast
qed

theorem wedge_path_shape_witness:
  "chartSegments (fst (generateChartData singleEstimate)) ! 0
     \<in> set (chartSegments (fst (generateChartData singleEstimate)))
   \<and> percentage (chartSegments (fst (generateChartData singleEstimate)) ! 0) = Fin 100
   \<and> pathData (chartSegments (fst (generateChartData singleEstimate)) ! 0) =
       Some [Txt ''M '', Val (Fin 175), Txt '' '', Val (Fin 15),
             Txt '' A '', Val (Fin 160), Txt '' '', Val (Fin 160),
             Txt '' 0 1 1 '', Val (Fin 174.9), Txt '' '', Val (Fin 15), Txt '' Z'']
   \<and> length (chartSegments (fst (generateChartData singleEstimate))) = 1
   \<and> chartSegments (fst (generateChartData fiveFiveEight)) ! 0
     \<in> set (chartSegments (fst (generateChartData fiveFiveEight)))
   \<and> percentage (chartSegments (fst (generateChartData fiveFiveEight)) ! 0) = Fin (200 / 3)
   \<and> (\<exists>x1 y1 x2 y2.
        pathData (chartSegments (fst (generateChartData fiveFiveEight)) ! 0) =
          Some [Txt ''M '', Val (Fin 175), Txt '' '', Val (Fin 175),
                Txt '' L '', Val x1, Txt '' '', Val y1,
                Txt '' A '', Val (Fin 160), Txt '' '', Val (Fin 160),
                Txt '' 0 '', Val (Fin 1), Txt '' 1 '', Val x2, Txt '' '', Val y2, Txt '' Z''])"
proof -
  let ?one = "chartSegments (fst (generateChartData singleEstimate)) ! 0"
  let ?two = "chartSegments (fst (generateChartData fiveFiveEight)) ! 0"
  have dims: "chartCenterX singleEstimate = 175" "chartCenterY singleEstimate = 175"
    "chartRadius singleEstimate = 160" "chartCenterX fiveFiveEight = 175"
    "chartCenterY fiveFiveEight = 175" "chartRadius fiveFiveEight = 160"
    by (simp_all add: singleEstimate_def fiveFiveEight_def initialComponent_def)
  have whole: "Fin 99.9 \<le> percentage ?one"
    by (simp add: first_singleEstimate(2))
  have part: "\<not> Fin 99.9 \<le> percentage ?two" and large: "Fin 50 < percentage ?two"
    by (simp_all add: first_fiveFiveEight(2))
  note shape1 = wedge_path_shape [of singleEstimate]
  note shape2 = wedge_path_shape [of fiveFiveEight]
  from shape1 first_singleEstimate(1) whole
  have p1: "pathData ?one =
      Some [Txt ''M '', Val (Fin (chartCenterX singleEstimate)), Txt '' '',
            Val (Fin (chartCenterY singleEstimate - chartRadius singleEstimate)),
            Txt '' A '', Val (Fin (chartRadius singleEstimate)), Txt '' '',
            Val (Fin (chartRadius singleEstimate)),
            Txt '' 0 1 1 '', Val (Fin (chartCenterX singleEstimate - 0.1)), Txt '' '',
            Val (Fin (chartCenterY singleEstimate - chartRadius singleEstimate)), Txt '' Z'']"
    by blast
  from shape1 first_singleEstimate have l1: "length (chartSegments (fst (generateChartData singleEstimate))) = 1"
    by blast
  from shape2 first_fiveFiveEight(1) part
  have p2: "\<exists>x1 y1 x2 y2. pathData ?two =
      Some [Txt ''M '', Val (Fin (chartCenterX fiveFiveEight)), Txt '' '',
            Val (Fin (chartCenterY fiveFiveEight)),
            Txt '' L '', Val x1, Txt '' '', Val y1,
            Txt '' A '', Val (Fin (chartRadius fiveFiveEight)), Txt '' '',
            Val (Fin (chartRadius fiveFiveEight)),
            Txt '' 0 '', Val (if Fin 50 < percentage ?two then Fin 1 else Fin 0),
            Txt '' 1 '', Val x2, Txt '' '', Val y2, Txt '' Z'']"
    by blast
  from p1 have p1': "pathData ?one =
       Some [Txt ''M '', Val (Fin 175), Txt '' '', Val (Fin 15),
             Txt '' A '', Val (Fin 160), Txt '' '', Val (Fin 160),
             Txt '' 0 1 1 '', Val (Fin 174.9), Txt '' '', Val (Fin 15), Txt '' Z'']"
    by (simp add: dims)
  from p2 large have p2': "\<exists>x1 y1 x2 y2. pathData ?two =
          Some [Txt ''M '', Val (Fin 175), Txt '' '', Val (Fin 175),
                Txt '' L '', Val x1, Txt '' '', Val y1,
                Txt '' A '', Val (Fin 160), Txt '' '', Val (Fin 160),
                Txt '' 0 '', Val (Fin 1), Txt '' 1 '', Val x2, Txt '' '', Val y2, Txt '' Z'']"
    by (simp add: dims)
  show ?thesis
    using first_singleEstimate first_fiveFiveEight p1' l1 p2' by blast
qed

text \<open>
  Claim C7.  The clauses on the path of each wedge hold on the code
  (\<open>wedge_path_shape\<close>), and a single estimate that holds all the votes yields exactly
  one full-circle wedge whenever its label is not a name that an ordinary object
  inherits (\<open>single_label_full_circle\<close>).  For an inherited name the last clause fails
  on the code; the evaluations below are the failing inputs.  With the single vote
  \<^verbatim>\<open>constructor\<close> that estimate holds all the votes, yet the one wedge has the
  percentage \<^verbatim>\<open>NaN\<close> and the ordinary wedge path, whose arc ends at \<^verbatim>\<open>NaN NaN\<close>, not
  the full-circle path.  With the single vote \<^verbatim>\<open>__proto__\<close> there is no wedge at all.
\<close>

theorem inherited_label_single_wedge:
  "countedLabels constructorVote = [''constructor'']
   \<and> length (chartSegments (fst (generateChartData constructorVote))) = 1
   \<and> percentage (chartSegments (fst (generateChartData constructorVote)) ! 0) = NaN
   \<and> pathData (chartSegments (fst (generateChartData constructorVote)) ! 0) =
       Some [Txt ''M '', Val (Fin 175), Txt '' '', Val (Fin 175),
             Txt '' L '', Val (Fin 175), Txt '' '', Val (Fin 15),
             Txt '' A '', Val (Fin 160), Txt '' '', Val (Fin 160),
             Txt '' 0 '', Val (Fin 0), Txt '' 1 '', Val NaN, Txt '' '', Val NaN, Txt '' Z'']
   \<and> countedLabels protoVote = [''__proto__'']
   \<and> chartSegments (fst (generateChartData protoVote)) = []"
proof -
  have ctor: "chartSegments (fst (generateChartData constructorVote)) =
      mapEntries constructorVote 1 (Fin 0) 0 [(''constructor'', NotNumeric)]"
    by (simp add: chartSegments_generate labels_constructorVote protoKey_def order_plain stored_def
        inheritedMethods_def del: mapEntries.simps)
  have dims: "chartCenterX constructorVote = 175" "chartCenterY constructorVote = 175"
    "chartRadius constructorVote = 160"
    by (simp_all add: constructorVote_def initialComponent_def)
  have proto: "chartSegments (fst (generateChartData protoVote)) = []"
    by (simp add: chartSegments_generate labels_protoVote protoKey_def propertyOrder_def)
  show ?thesis
    by (simp add: ctor dims proto labels_constructorVote labels_protoVote Let_def Math_PI_def)
qed

text \<open>
  Claim C10.  For every wedge \<^verbatim>\<open>generateChartData\<close> produces whose percentage is below
  99.9, \<^verbatim>\<open>getSegmentPath\<close> applied to the wedge gives the path stored in the wedge.
\<close>

theorem getSegmentPath_agrees:
  "\<forall>seg \<in> set (chartSegments (fst (generateChartData c))).
     percentage seg < Fin 99.9 \<longrightarrow>
       pathData seg = Some (getSegmentPath (fst (generateChartData c)) seg)"
proof (intro ballI impI)
  fix seg
  assume mem: "seg \<in> set (chartSegments (fst (generateChartData c)))"
    and small: "percentage seg < Fin 99.9"
  from small have below: "\<not> Fin 99.9 \<le> percentage seg"
    by (cases "percentage seg") simp_all
  have same: "getSegmentPath (fst (generateChartData c)) seg = getSegmentPath c seg"
    by (simp add: getSegmentPath_def generateChartData_def Let_def)
  from mem have "seg \<in> set (mapEntries c (length (countedLabels c)) (Fin 0) 0
      (map (stored (countedLabels c))
         (propertyOrder (filter (\<lambda>k. k \<noteq> protoKey) (firstOccurrences (countedLabels c))))))"
    by (simp add: chartSegments_generate)
  from mapEntries_pathData [OF this below] same
  show "pathData seg = Some (getSegmentPath (fst (generateChartData c)) seg)" by simp
qed

theorem getSegmentPath_agrees_witness:
  "chartSegments (fst (generateChartData fiveFiveEight)) ! 0
     \<in> set (chartSegments (fst (generateChartData fiveFiveEight)))
   \<and> percentage (chartSegments (fst (generateChartData fiveFiveEight)) ! 0) < Fin 99.9
   \<and> pathData (chartSegments (fst (generateChartData fiveFiveEight)) ! 0) =
       Some (getSegmentPath (fst (generateChartData fiveFiveEight))
              (chartSegments (fst (generateChartData fiveFiveEight)) ! 0))"
proof -
  have small: "percentage (chartSegments (fst (generateChartData fiveFiveEight)) ! 0) < Fin 99.9"
    by (simp add: first_fiveFiveEight(2))
  from getSegmentPath_agrees [of fiveFiveEight] first_fiveFiveEight(1) small
  show ?thesis by blast
qed

section \<open>Properties of the session controller\<close>

lemmas subject_defs = usersSubject_next_def roomSubject_next_def votingResultsSubject_next_def
  estimationStartedSubject_next_def resultsRevealedSubject_next_def deliver_def

lemmas callback_defs = on_users_def on_room_def on_votingResults_def on_estimationStarted_def
  on_resultsRevealed_def updateChartData_def generateChartData_def

subsection \<open>Casting and retracting a vote\<close>

text \<open>
  Claim C5.  In every state in which estimation has not started, \<^verbatim>\<open>selectEstimate\<close> does
  nothing, whatever the estimate: the component is returned as it was (selected estimate,
  current user with estimate and voted flag, and every other field), and nothing is
  emitted to the backend.
\<close>

theorem selectEstimate_not_started_noop:
  "\<not> estimationStarted c \<Longrightarrow> selectEstimate point c = (c, [])"
  by (simp add: selectEstimate_def)

theorem selectEstimate_not_started_noop_witness:
  "\<not> estimationStarted
        ((initialComponent ''r1'')\<lparr>currentUser := Some alice, selectedEstimate := Some (EstNumber 3)\<rparr>)
   \<and> selectEstimate (EstNumber 5)
        ((initialComponent ''r1'')\<lparr>currentUser := Some alice, selectedEstimate := Some (EstNumber 3)\<rparr>)
       = ((initialComponent ''r1'')\<lparr>currentUser := Some alice, selectedEstimate := Some (EstNumber 3)\<rparr>,
          [])"
  using selectEstimate_not_started_noop
    [of "(initialComponent ''r1'')\<lparr>currentUser := Some alice, selectedEstimate := Some (EstNumber 3)\<rparr>"
        "EstNumber 5"]
  by (simp add: initialComponent_def)

text \<open>
  Claim C4, as stated, fails where the component has no current user: the method is
  guarded by \<^verbatim>\<open>if (this.currentUser)\<close>, so with estimation in progress and an estimate
  that differs from the selection it records nothing and emits nothing.
\<close>

theorem selectEstimate_no_user_counterexample:
  "estimationStarted ((initialComponent ''r1'')\<lparr>estimationStarted := True\<rparr>)
   \<and> selectedEstimate ((initialComponent ''r1'')\<lparr>estimationStarted := True\<rparr>) \<noteq> Some (EstNumber 5)
   \<and> selectEstimate (EstNumber 5) ((initialComponent ''r1'')\<lparr>estimationStarted := True\<rparr>)
       = ((initialComponent ''r1'')\<lparr>estimationStarted := True\<rparr>, [])
   \<and> selectedEstimate
         (fst (selectEstimate (EstNumber 5) ((initialComponent ''r1'')\<lparr>estimationStarted := True\<rparr>)))
       \<noteq> Some (EstNumber 5)"
  by (simp add: selectEstimate_def initialComponent_def)

text \<open>
  Claim C4, amended.  While estimation is in progress and a current user \<open>u\<close> is present:
  selecting the currently selected estimate \<open>v\<close> clears the local vote (selection
  \<^verbatim>\<open>null\<close>, the user's estimate absent, voted flag false) and emits a vote with the empty
  string; selecting any other \<open>v\<close> records it (selection, the user's estimate, voted flag
  true) and emits a vote with \<open>v\<close> printed; and selecting such a \<open>v\<close> a second time
  right away ends in the cleared vote.  Without a current user the method changes
  nothing and emits nothing.
\<close>

theorem selectEstimate_toggle:
  "(estimationStarted c \<and> currentUser c = Some u \<longrightarrow>
      (selectedEstimate c = Some v \<longrightarrow>
         selectEstimate v c =
           (c\<lparr>selectedEstimate := None,
              currentUser := Some (u\<lparr>estimate := None, hasVoted := False\<rparr>)\<rparr>,
            [EmitSubmitVote (roomId c) (user_id u) []]))
      \<and> (selectedEstimate c \<noteq> Some v \<longrightarrow>
         selectEstimate v c =
           (c\<lparr>selectedEstimate := Some v,
              currentUser := Some (u\<lparr>estimate := Some v, hasVoted := True\<rparr>)\<rparr>,
            [EmitSubmitVote (roomId c) (user_id u) (toString v)])
         \<and> selectEstimate v (fst (selectEstimate v c)) =
           (c\<lparr>selectedEstimate := None,
              currentUser := Some (u\<lparr>estimate := None, hasVoted := False\<rparr>)\<rparr>,
            [EmitSubmitVote (roomId c) (user_id u) []])))
   \<and> (currentUser c = None \<longrightarrow> selectEstimate v c = (c, []))"
  by (simp add: selectEstimate_def)

theorem selectEstimate_toggle_witness:
  "estimationStarted votingComponent \<and> currentUser votingComponent = Some alice
   \<and> selectedEstimate votingComponent \<noteq> Some (EstNumber 5)
   \<and> selectEstimate (EstNumber 5) votingComponent =
        (votingComponent\<lparr>selectedEstimate := Some (EstNumber 5),
           currentUser := Some (alice\<lparr>estimate := Some (EstNumber 5), hasVoted := True\<rparr>)\<rparr>,
         [EmitSubmitVote ''r1'' ''a1'' ''5''])
   \<and> selectEstimate (EstNumber 5) (fst (selectEstimate (EstNumber 5) votingComponent)) =
        (votingComponent\<lparr>selectedEstimate := None,
           currentUser := Some (alice\<lparr>estimate := None, hasVoted := False\<rparr>)\<rparr>,
         [EmitSubmitVote ''r1'' ''a1'' []])"
proof -
  have started: "estimationStarted votingComponent"
    by (simp add: votingComponent_def)
  have joined: "currentUser votingComponent = Some alice"
    by (simp add: votingComponent_def)
  have unselected: "selectedEstimate votingComponent \<noteq> Some (EstNumber 5)"
    by (simp add: votingComponent_def initialComponent_def)
  have five: "toString (EstNumber 5) = ''5''"
    by (simp add: showNat.simps [of 5] digitChar_def)
  have rid: "roomId votingComponent = ''r1''" and uid: "user_id alice = ''a1''"
    by (simp_all add: votingComponent_def initialComponent_def alice_def)
  note toggle = selectEstimate_toggle [of votingComponent alice "EstNumber 5",
      THEN conjunct1, THEN mp, OF conjI [OF started joined]]
  from toggle unselected
  have "selectEstimate (EstNumber 5) votingComponent =
          (votingComponent\<lparr>selectedEstimate := Some (EstNumber 5),
             currentUser := Some (alice\<lparr>estimate := Some (EstNumber 5), hasVoted := True\<rparr>)\<rparr>,
           [EmitSubmitVote (roomId votingComponent) (user_id alice) (toString (EstNumber 5))])"
    and "selectEstimate (EstNumber 5) (fst (selectEstimate (EstNumber 5) votingComponent)) =
          (votingComponent\<lparr>selectedEstimate := None,
             currentUser := Some (alice\<lparr>estimate := None, hasVoted := False\<rparr>)\<rparr>,
           [EmitSubmitVote (roomId votingComponent) (user_id alice) []])"
    by blast+
  then show ?thesis
    using started joined unselected by (simp only: five rid uid simp_thms)
qed

subsection \<open>Closing the room\<close>

text \<open>
  Claim C8, as stated, fails where the component has no current user: the request and
  both of its callbacks sit behind \<^verbatim>\<open>result.isConfirmed && this.currentUser\<close>, so a
  confirmed dialog alone removes nothing and navigates nowhere.
\<close>

theorem closeRoom_no_user_counterexample:
  "closeRoom True ResponseNext (initialComponent ''r1'') = [SwalConfirmClose]
   \<and> closeRoom True ResponseError (initialComponent ''r1'') = [SwalConfirmClose]"
  by (simp add: closeRoom_def initialComponent_def)

text \<open>
  Claim C8, amended.  When the dialog is confirmed and a current user is present, the
  leave-room request is sent, and whether it ends in a response or in a failure, the
  stored identity of the room is removed and the router navigates home; after a failure
  the warning follows the navigation.  Without a current user a confirmed dialog sends no
  request, removes nothing and does not navigate.
\<close>

theorem closeRoom_confirmed:
  "(currentUser c = Some u \<longrightarrow>
      closeRoom True ResponseNext c =
        [SwalConfirmClose, HttpLeaveRoom (roomId c) (user_id u),
         LocalStorageRemove (storageKey (roomId c)), RouterNavigate [''/'']]
      \<and> closeRoom True ResponseError c =
        [SwalConfirmClose, HttpLeaveRoom (roomId c) (user_id u),
         LocalStorageRemove (storageKey (roomId c)), RouterNavigate [''/''], SwalWarning])
   \<and> (currentUser c = None \<longrightarrow> closeRoom True outcome c = [SwalConfirmClose])"
  by (simp add: closeRoom_def)

theorem closeRoom_confirmed_witness:
  "currentUser votingComponent = Some alice
   \<and> closeRoom True ResponseNext votingComponent =
       [SwalConfirmClose, HttpLeaveRoom ''r1'' ''a1'',
        LocalStorageRemove ''room_r1_user'', RouterNavigate [''/'']]
   \<and> closeRoom True ResponseError votingComponent =
       [SwalConfirmClose, HttpLeaveRoom ''r1'' ''a1'',
        LocalStorageRemove ''room_r1_user'', RouterNavigate [''/''], SwalWarning]"
proof -
  have joined: "currentUser votingComponent = Some alice"
    by (simp add: votingComponent_def)
  have rid: "roomId votingComponent = ''r1''" and uid: "user_id alice = ''a1''"
    by (simp_all add: votingComponent_def initialComponent_def alice_def)
  show ?thesis
    using closeRoom_confirmed [of votingComponent alice, THEN conjunct1, THEN mp, OF joined] joined
    by (simp add: rid uid storageKey_def)
qed

subsection \<open>Inbound events\<close>

text \<open>
  Claim C6, as stated, fails for a payload whose \<^verbatim>\<open>revealed\<close> flag is false: the
  component clears the selection only under \<^verbatim>\<open>if (revealed)\<close>.
\<close>

theorem votes_revealed_payload_counterexample:
  "selectedEstimate
     (cmp (handle (VotesRevealed False [voter ''u2'' (EstNumber 8)] None)
        ((initialWorld ''r1'')\<lparr>cmp := votingComponent\<lparr>selectedEstimate := Some (EstNumber 5)\<rparr>\<rparr>)))
   = Some (EstNumber 5)"
  by (simp add: subject_defs callback_defs Let_def split: prod.splits)

text \<open>
  Claim C6, amended.  After a \<^verbatim>\<open>votes-revealed\<close> event the selected estimate is
  \<^verbatim>\<open>null\<close> when the payload's \<^verbatim>\<open>revealed\<close> flag is true, and is what it was before when
  the flag is false.
\<close>

theorem votes_revealed_selection:
  "selectedEstimate (cmp (handle (VotesRevealed rv votes sm) w)) =
     (if rv then None else selectedEstimate (cmp w))"
  by (simp add: subject_defs callback_defs Let_def split: prod.splits)

theorem votes_revealed_selection_witness:
  "selectedEstimate
     (cmp (handle (VotesRevealed True [voter ''u2'' (EstNumber 8)] None)
        ((initialWorld ''r1'')\<lparr>cmp := votingComponent\<lparr>selectedEstimate := Some (EstNumber 5)\<rparr>\<rparr>)))
   = None"
  using votes_revealed_selection [where rv = True and votes = "[voter ''u2'' (EstNumber 8)]" and sm = None
      and w = "(initialWorld ''r1'')\<lparr>cmp := votingComponent\<lparr>selectedEstimate := Some (EstNumber 5)\<rparr>\<rparr>"]
  by simp

text \<open>
  Claim C2, as stated, fails.  After \<^verbatim>\<open>estimation-started\<close> and a \<^verbatim>\<open>votes-revealed\<close>
  event with \<^verbatim>\<open>revealed = true\<close> both flags are true, in the service and in the
  component, so started does not imply not-revealed.  After a \<^verbatim>\<open>room-state\<close> snapshot of
  a revealed room, received in the initial state, revealed is true and started is false,
  so revealed does not imply started.
\<close>

theorem phase_flags_counterexample:
  "estimationStarted (cmp (run [EstimationStarted [alice] noResults,
                                VotesRevealed True [voter ''u1'' (EstNumber 5)] None] (initialWorld ''r1'')))
   \<and> resultsRevealed (cmp (run [EstimationStarted [alice] noResults,
                                VotesRevealed True [voter ''u1'' (EstNumber 5)] None] (initialWorld ''r1'')))
   \<and> estimationStartedSubject (svc (run [EstimationStarted [alice] noResults,
                                VotesRevealed True [voter ''u1'' (EstNumber 5)] None] (initialWorld ''r1'')))
   \<and> resultsRevealedSubject (svc (run [EstimationStarted [alice] noResults,
                                VotesRevealed True [voter ''u1'' (EstNumber 5)] None] (initialWorld ''r1'')))
   \<and> resultsRevealed (cmp (run [RoomState (exampleRoom\<lparr>votingRevealed := True\<rparr>) [alice] noResults]
                                (initialWorld ''r1'')))
   \<and> \<not> estimationStarted (cmp (run [RoomState (exampleRoom\<lparr>votingRevealed := True\<rparr>) [alice] noResults]
                                (initialWorld ''r1'')))
   \<and> resultsRevealedSubject (svc (run [RoomState (exampleRoom\<lparr>votingRevealed := True\<rparr>) [alice] noResults]
                                (initialWorld ''r1'')))
   \<and> \<not> estimationStartedSubject (svc (run [RoomState (exampleRoom\<lparr>votingRevealed := True\<rparr>) [alice] noResults]
                                (initialWorld ''r1'')))"
  by (simp add: run_def subject_defs callback_defs Let_def initialWorld_def initialService_def
      initialComponent_def exampleRoom_def split: prod.splits)

text \<open>
  Claim C2, amended.  From any state: a \<^verbatim>\<open>voting-reset\<close> event leaves both flags false; an
  \<^verbatim>\<open>estimation-started\<close> event leaves started true and revealed false; a
  \<^verbatim>\<open>votes-revealed\<close> event sets revealed to the payload's flag and a \<^verbatim>\<open>room-state\<close>
  event sets it to the room's \<^verbatim>\<open>votingRevealed\<close>, and neither of the two touches started.
  Each statement holds for the subjects of the service and for the fields of the component.
\<close>

theorem phase_flags_after_events:
  "(let w' = handle (VotingReset us rs) w
    in \<not> estimationStartedSubject (svc w') \<and> \<not> resultsRevealedSubject (svc w')
       \<and> \<not> estimationStarted (cmp w') \<and> \<not> resultsRevealed (cmp w'))
   \<and> (let w' = handle (EstimationStarted us rs) w
    in estimationStartedSubject (svc w') \<and> \<not> resultsRevealedSubject (svc w')
       \<and> estimationStarted (cmp w') \<and> \<not> resultsRevealed (cmp w'))
   \<and> (let w' = handle (VotesRevealed rv votes sm) w
    in resultsRevealedSubject (svc w') = rv \<and> resultsRevealed (cmp w') = rv
       \<and> estimationStartedSubject (svc w') = estimationStartedSubject (svc w)
       \<and> estimationStarted (cmp w') = estimationStarted (cmp w))
   \<and> (let w' = handle (RoomState rm us rs) w
    in resultsRevealedSubject (svc w') = votingRevealed rm
       \<and> resultsRevealed (cmp w') = votingRevealed rm
       \<and> estimationStartedSubject (svc w') = estimationStartedSubject (svc w)
       \<and> estimationStarted (cmp w') = estimationStarted (cmp w))"
  by (simp add: subject_defs callback_defs Let_def split: prod.splits)

text \<open>
  Claim C9.  A \<^verbatim>\<open>story-updated\<close> event replaces the \<^verbatim>\<open>story\<close> field of the room snapshot
  and nothing else of it: identifier, name, user count, admin name, the two phase flags
  of the room and both timestamps are those of the snapshot held before.  The subjects
  for the participants, the results and the two phase flags keep their values, and so do
  the component's participant list, chart segments and phase flags; the component
  follows the room and shows the new story text.  With no snapshot held, nothing changes.
\<close>

theorem story_updated_frame:
  "(case roomSubject (svc w) of
      None \<Rightarrow> handle (StoryUpdated st rm) w = w
    | Some r \<Rightarrow>
        handle (StoryUpdated st rm) w =
          w\<lparr>svc := (svc w)\<lparr>roomSubject := Some (r\<lparr>story := st\<rparr>)\<rparr>,
            cmp := (cmp w)\<lparr>room := Some (r\<lparr>story := st\<rparr>), storySummary := storyText st\<rparr>\<rparr>
        \<and> room_id (r\<lparr>story := st\<rparr>) = room_id r
        \<and> room_name (r\<lparr>story := st\<rparr>) = room_name r
        \<and> userCount (r\<lparr>story := st\<rparr>) = userCount r
        \<and> adminName (r\<lparr>story := st\<rparr>) = adminName r
        \<and> votingRevealed (r\<lparr>story := st\<rparr>) = votingRevealed r
        \<and> room_estimationStarted (r\<lparr>story := st\<rparr>) = room_estimationStarted r
        \<and> createdAt (r\<lparr>story := st\<rparr>) = createdAt r
        \<and> lastActivity (r\<lparr>story := st\<rparr>) = lastActivity r)
   \<and> usersSubject (svc (handle (StoryUpdated st rm) w)) = usersSubject (svc w)
   \<and> votingResultsSubject (svc (handle (StoryUpdated st rm) w)) = votingResultsSubject (svc w)
   \<and> estimationStartedSubject (svc (handle (StoryUpdated st rm) w)) = estimationStartedSubject (svc w)
   \<and> resultsRevealedSubject (svc (handle (StoryUpdated st rm) w)) = resultsRevealedSubject (svc w)
   \<and> users (cmp (handle (StoryUpdated st rm) w)) = users (cmp w)
   \<and> chartSegments (cmp (handle (StoryUpdated st rm) w)) = chartSegments (cmp w)
   \<and> estimationStarted (cmp (handle (StoryUpdated st rm) w)) = estimationStarted (cmp w)
   \<and> resultsRevealed (cmp (handle (StoryUpdated st rm) w)) = resultsRevealed (cmp w)"
  by (cases "roomSubject (svc w)") (simp_all add: subject_defs callback_defs Let_def)

theorem story_updated_frame_witness:
  "roomSubject (svc (handle (RoomState exampleRoom [alice] noResults) (initialWorld ''r1''))) = Some exampleRoom
   \<and> roomSubject (svc (handle (StoryUpdated \<lparr>title = ''Checkout'', description = ''Pay by card''\<rparr> exampleRoom)
        (handle (RoomState exampleRoom [alice] noResults) (initialWorld ''r1''))))
     = Some (exampleRoom\<lparr>story := \<lparr>title = ''Checkout'', description = ''Pay by card''\<rparr>\<rparr>)
   \<and> users (cmp (handle (StoryUpdated \<lparr>title = ''Checkout'', description = ''Pay by card''\<rparr> exampleRoom)
        (handle (RoomState exampleRoom [alice] noResults) (initialWorld ''r1'')))) = [alice]"
proof -
  let ?w = "handle (RoomState exampleRoom [alice] noResults) (initialWorld ''r1'')"
  let ?st = "\<lparr>title = ''Checkout'', description = ''Pay by card''\<rparr>"
  have present: "roomSubject (svc ?w) = Some exampleRoom"
    by (simp add: subject_defs callback_defs Let_def split: prod.splits)
  have listed: "users (cmp ?w) = [alice]"
    by (simp add: subject_defs callback_defs Let_def exampleRoom_def split: prod.splits)
  show ?thesis
    using story_updated_frame [where w = ?w and st = ?st and rm = exampleRoom] present listed
    by simp
qed

end
